theory Spec2Isabelle
  imports Complex_Main "HOL-Library.AList" "HOL-Library.Sublist"
begin

section \<open>Strings, paths and the file system\<close>

text \<open>
  The two front ends, \<^verbatim>\<open>app.py\<close> (browser) and \<^verbatim>\<open>yd.py\<close> (terminal), share the helpers
  \<^verbatim>\<open>sanitize_filename\<close>, \<^verbatim>\<open>get_unique_path\<close>, \<^verbatim>\<open>clean_youtube_url\<close> and
  \<^verbatim>\<open>merge_audio_video\<close> word for word; each is embedded once. Python strings are
  character lists. Exceptions are values of \<open>error\<close>; a function that may raise
  returns \<open>error + 'a\<close> with \<open>Inl\<close> the exception.
\<close>

datatype error =
    ZeroDivisionError
  | CalledProcessError
  | TimeoutExpired
  | FileNotFoundError
  | AttributeError
  | ValueError
  | External string

text \<open>\<^verbatim>\<open>str(e)\<close> of an exception, as far as the pipeline shows it.\<close>

fun error_str :: "error \<Rightarrow> string" where
  "error_str ZeroDivisionError = ''division by zero''"
| "error_str CalledProcessError = ''Command returned non-zero exit status''"
| "error_str TimeoutExpired = ''Command timed out''"
| "error_str FileNotFoundError = ''No such file or directory''"
| "error_str AttributeError = ''NoneType object has no attribute''"
| "error_str ValueError = ''invalid literal for int() with base 10''"
| "error_str (External m) = m"

subsection \<open>\<^verbatim>\<open>sanitize_filename\<close>\<close>

text \<open>The character class of \<^verbatim>\<open>re.sub(r'[\\/*?:"<>|]', "", name)\<close>.\<close>

definition illegal_chars :: "char list" where
  "illegal_chars =
     [CHR 0x5C, CHR ''/'', CHR ''*'', CHR ''?'', CHR '':'', CHR 0x22, CHR ''<'', CHR ''>'', CHR ''|'']"

text \<open>\<^verbatim>\<open>str.isspace\<close> on the characters below 256.\<close>

definition isspace :: "char \<Rightarrow> bool" where
  "isspace c = (c \<in> set [CHR 0x09, CHR 0x0A, CHR 0x0B, CHR 0x0C, CHR 0x0D,
                          CHR 0x1C, CHR 0x1D, CHR 0x1E, CHR 0x1F, CHR 0x20, CHR 0x85, CHR 0xA0])"

definition lstrip :: "string \<Rightarrow> string" where
  "lstrip s = dropWhile isspace s"

definition rstrip :: "string \<Rightarrow> string" where
  "rstrip s = rev (dropWhile isspace (rev s))"

definition strip :: "string \<Rightarrow> string" where
  "strip s = lstrip (rstrip s)"

definition sanitize_filename :: "string \<Rightarrow> string" where
  "sanitize_filename name = strip (filter (\<lambda>c. c \<notin> set illegal_chars) name)"

subsection \<open>\<^verbatim>\<open>os.path\<close> and \<^verbatim>\<open>str\<close>\<close>

definition digit_char :: "nat \<Rightarrow> char" where
  "digit_char d = ''0123456789'' ! d"

text \<open>\<^verbatim>\<open>str(n)\<close> of a non-negative integer.\<close>

fun str_nat :: "nat \<Rightarrow> string" where
  "str_nat n = (if n < 10 then [digit_char n] else str_nat (n div 10) @ [digit_char (n mod 10)])"

declare str_nat.simps [simp del]

text \<open>\<^verbatim>\<open>p.rfind(c)\<close>: the index of the last \<open>c\<close>, or \<open>-1\<close>.\<close>

definition rfind :: "char \<Rightarrow> string \<Rightarrow> int" where
  "rfind c p = (if c \<in> set p
                then int (length p) - 1 - int (length (takeWhile (\<lambda>x. x \<noteq> c) (rev p)))
                else - 1)"

text \<open>
  \<^verbatim>\<open>os.path.splitext\<close> (POSIX): split at the last dot of the last component, unless
  that component has only dots before it.
\<close>

definition splitext :: "string \<Rightarrow> string \<times> string" where
  "splitext p =
     (let sepIndex = rfind CHR ''/'' p; dotIndex = rfind CHR ''.'' p in
      if dotIndex > sepIndex \<and>
         list_ex (\<lambda>c. c \<noteq> CHR ''.'')
           (take (nat (dotIndex - (sepIndex + 1))) (drop (nat (sepIndex + 1)) p))
      then (take (nat dotIndex) p, drop (nat dotIndex) p)
      else (p, []))"

definition basename :: "string \<Rightarrow> string" where
  "basename p = drop (nat (rfind CHR ''/'' p + 1)) p"

definition path_join :: "string \<Rightarrow> string \<Rightarrow> string" where
  "path_join a b =
     (if b \<noteq> [] \<and> hd b = CHR ''/'' then b
      else if a = [] \<or> last a = CHR ''/'' then a @ b
      else a @ ''/'' @ b)"

subsection \<open>\<^verbatim>\<open>get_unique_path\<close>\<close>

text \<open>
  \<^verbatim>\<open>
  base, ext = os.path.splitext(path)
  counter = 1
  while os.path.exists(path):
      path = f"{base}_{counter}{ext}"
      counter += 1
  return path
  \<close>
  \<open>ex\<close> is \<^verbatim>\<open>os.path.exists\<close>. The loop need not end (when every candidate exists), so
  it is a partial function: \<open>None\<close> is the run that never returns.
\<close>

partial_function (option) unique_loop ::
  "(string \<Rightarrow> bool) \<Rightarrow> string \<Rightarrow> string \<Rightarrow> string \<Rightarrow> nat \<Rightarrow> string option" where
  "unique_loop ex base ext path counter =
     (if ex path then unique_loop ex base ext (base @ ''_'' @ str_nat counter @ ext) (counter + 1)
      else Some path)"

declare unique_loop.simps [code]

definition get_unique_path :: "(string \<Rightarrow> bool) \<Rightarrow> string \<Rightarrow> string option" where
  "get_unique_path ex path =
     (case splitext path of (base, ext) \<Rightarrow> unique_loop ex base ext path 1)"

text \<open>The \<open>k\<close>-th candidate name the loop tries for \<open>path\<close>.\<close>

definition candidate :: "string \<Rightarrow> nat \<Rightarrow> string" where
  "candidate path k = fst (splitext path) @ ''_'' @ str_nat k @ snd (splitext path)"

subsection \<open>\<^verbatim>\<open>clean_youtube_url\<close>\<close>

definition is_id_char :: "char \<Rightarrow> bool" where
  "is_id_char c =
     (c \<in> set ''abcdefghijklmnopqrstuvwxyzABCDEFGHIJKLMNOPQRSTUVWXYZ0123456789_-'')"

text \<open>
  \<^verbatim>\<open>re.match(r"https?://youtu\.be/([a-zA-Z0-9_-]{11})", url)\<close>: anchored at the start
  of the string, not at its end; the result is group 1.
\<close>

definition match_short_link :: "string \<Rightarrow> string option" where
  "match_short_link url =
     (let rest = (if prefix ''https://youtu.be/'' url then Some (drop 17 url)
                  else if prefix ''http://youtu.be/'' url then Some (drop 16 url)
                  else None)
      in case rest of
           None \<Rightarrow> None
         | Some r \<Rightarrow>
             if length r \<ge> 11 \<and> list_all is_id_char (take 11 r) then Some (take 11 r) else None)"

text \<open>\<^verbatim>\<open>sub in s\<close>.\<close>

fun contains :: "string \<Rightarrow> string \<Rightarrow> bool" where
  "contains sub [] = (sub = [])"
| "contains sub (c # cs) = (prefix sub (c # cs) \<or> contains sub cs)"

definition clean_youtube_url :: "string \<Rightarrow> string" where
  "clean_youtube_url url =
     (case match_short_link url of
        Some video_id \<Rightarrow> ''https://www.youtube.com/watch?v='' @ video_id
      | None \<Rightarrow>
          if contains ''watch?v='' url then takeWhile (\<lambda>c. c \<noteq> CHR ''&'') url else url)"

text \<open>
  The rule as the specification words it, for comparison: cut at the first \<open>&\<close> that
  comes after the first watch marker.
\<close>

fun spec_truncate_after_marker :: "string \<Rightarrow> string" where
  "spec_truncate_after_marker [] = []"
| "spec_truncate_after_marker (c # cs) =
     (if prefix ''watch?v='' (c # cs) then takeWhile (\<lambda>x. x \<noteq> CHR ''&'') (c # cs)
      else c # spec_truncate_after_marker cs)"

subsection \<open>\<^verbatim>\<open>int(...)\<close> and \<^verbatim>\<open>str.replace\<close>\<close>

definition is_digit :: "char \<Rightarrow> bool" where
  "is_digit c = (c \<in> set ''0123456789'')"

definition digit_val :: "char \<Rightarrow> nat" where
  "digit_val c = length (takeWhile (\<lambda>d. d \<noteq> c) ''0123456789'')"

fun no_double_underscore :: "string \<Rightarrow> bool" where
  "no_double_underscore (a # b # cs) =
     (\<not> (a = CHR ''_'' \<and> b = CHR ''_'') \<and> no_double_underscore (b # cs))"
| "no_double_underscore cs = True"

definition int_literal_ok :: "string \<Rightarrow> bool" where
  "int_literal_ok b =
     (b \<noteq> [] \<and> is_digit (hd b) \<and> is_digit (last b) \<and>
      list_all (\<lambda>c. is_digit c \<or> c = CHR ''_'') b \<and> no_double_underscore b)"

text \<open>
  \<^verbatim>\<open>int(s)\<close> on a string: surrounding whitespace, an optional sign, decimal digits with
  single underscores between them; anything else raises \<^verbatim>\<open>ValueError\<close>.
\<close>

definition py_int :: "string \<Rightarrow> error + int" where
  "py_int s =
     (let t = strip s;
          neg = (t \<noteq> [] \<and> hd t = CHR ''-'');
          body = (if t \<noteq> [] \<and> (hd t = CHR ''-'' \<or> hd t = CHR ''+'') then tl t else t)
      in if int_literal_ok body
         then Inr ((if neg then - 1 else 1) *
                   int (foldl (\<lambda>a c. 10 * a + digit_val c) 0 (filter is_digit body)))
         else Inl ValueError)"

definition str_int :: "int \<Rightarrow> string" where
  "str_int i = (if i < 0 then ''-'' @ str_nat (nat (- i)) else str_nat (nat i))"

text \<open>
  \<^verbatim>\<open>s.replace(old, new)\<close> for a non-empty \<open>old\<close>: every occurrence, left to right, without
  overlap. \<open>skip\<close> counts the characters of a matched \<open>old\<close> still to be dropped.
\<close>

fun replace_from :: "string \<Rightarrow> string \<Rightarrow> nat \<Rightarrow> string \<Rightarrow> string" where
  "replace_from old new skip [] = []"
| "replace_from old new skip (c # cs) =
     (if skip > 0 then replace_from old new (skip - 1) cs
      else if prefix old (c # cs) then new @ replace_from old new (length old - 1) cs
      else c # replace_from old new 0 cs)"

definition str_replace :: "string \<Rightarrow> string \<Rightarrow> string \<Rightarrow> string" where
  "str_replace old new s = replace_from old new 0 s"

section \<open>The catalog, the environment and the state\<close>

text \<open>
  The catalog service (\<^verbatim>\<open>pytubefix\<close>), the encoding tool (\<^verbatim>\<open>ffmpeg\<close>) and the thumbnail
  server are outside the repository. What they answer is a parameter of the model, the
  record \<open>env\<close>; the code of the repository is embedded on top of it. A stream carries
  what the pipeline reads: \<^verbatim>\<open>type\<close>, \<^verbatim>\<open>subtype\<close> (the file extension), \<^verbatim>\<open>is_adaptive\<close>,
  \<^verbatim>\<open>resolution\<close> (\<^verbatim>\<open>"720p"\<close> is \<open>Some 720\<close>), \<^verbatim>\<open>abr\<close> (\<^verbatim>\<open>"128kbps"\<close> is \<open>Some 128\<close>),
  \<^verbatim>\<open>filesize\<close> and \<^verbatim>\<open>default_filename\<close>.
\<close>

datatype media_type = Video | Audio

record stream =
  mtype :: media_type
  subtype :: string
  is_adaptive :: bool
  resolution :: "nat option"
  abr :: "nat option"
  filesize :: nat
  default_filename :: string

definition is_progressive :: "stream \<Rightarrow> bool" where
  "is_progressive s = (\<not> is_adaptive s)"

definition includes_audio_track :: "stream \<Rightarrow> bool" where
  "includes_audio_track s = (is_progressive s \<or> mtype s = Audio)"

definition includes_video_track :: "stream \<Rightarrow> bool" where
  "includes_video_track s = (is_progressive s \<or> mtype s = Video)"

text \<open>The filter \<^verbatim>\<open>only_audio=True\<close>.\<close>

definition only_audio :: "stream \<Rightarrow> bool" where
  "only_audio s = (includes_audio_track s \<and> \<not> includes_video_track s)"

definition resolution_str :: "stream \<Rightarrow> string option" where
  "resolution_str s = map_option (\<lambda>r. str_nat r @ ''p'') (resolution s)"

definition res_label :: "stream \<Rightarrow> string" where
  "res_label s = (case resolution s of None \<Rightarrow> ''None'' | Some r \<Rightarrow> str_nat r @ ''p'')"

definition abr_label :: "stream \<Rightarrow> string" where
  "abr_label s = (case abr s of None \<Rightarrow> ''None'' | Some r \<Rightarrow> str_nat r @ ''kbps'')"

text \<open>
  A stream query is a list. \<^verbatim>\<open>order_by(attr)\<close> drops the streams without the attribute
  and sorts the rest by its number, ascending and stable; \<^verbatim>\<open>desc()\<close> reverses;
  \<^verbatim>\<open>first()\<close> is the head or \<^verbatim>\<open>None\<close>.
\<close>

definition attr_val :: "nat option \<Rightarrow> nat" where
  "attr_val a = (case a of None \<Rightarrow> 0 | Some n \<Rightarrow> n)"

definition order_by :: "(stream \<Rightarrow> nat option) \<Rightarrow> stream list \<Rightarrow> stream list" where
  "order_by attr q = sort_key (\<lambda>s. attr_val (attr s)) (filter (\<lambda>s. attr s \<noteq> None) q)"

definition desc :: "stream list \<Rightarrow> stream list" where
  "desc q = rev q"

definition first :: "stream list \<Rightarrow> stream option" where
  "first q = (case q of [] \<Rightarrow> None | s # rest \<Rightarrow> Some s)"

record video =
  title :: string
  author :: string
  length_s :: nat
  thumbnail_url :: string
  streams :: "stream list"

text \<open>A member of a playlist, as the catalog lists it: its title and its watch URL.\<close>

record entry =
  entry_title :: string
  watch_url :: string

record playlist =
  pl_title :: string
  videos :: "entry list"

text \<open>
  What \<^verbatim>\<open>subprocess.run\<close> can do: the process ends with a return code and its error
  output, or the call raises (the tool is missing, the timeout expires).
\<close>

datatype proc = Completed int string | Raised error

text \<open>
  The file system is a finite table from paths to sizes. \<open>catalog\<close> is \<^verbatim>\<open>YouTube(url)\<close>
  with its metadata, \<open>playlist_of\<close> is \<^verbatim>\<open>Playlist(url)\<close>, \<open>transfer\<close> is the outcome of
  \<^verbatim>\<open>stream.download\<close> (the bytes written, or the exception it raises, which includes
  one raised by a progress callback), \<open>ffmpeg\<close> is the tool run on an argument list and
  a file system, \<open>http_get\<close> is \<^verbatim>\<open>requests.get\<close> (status code and body length),
  \<open>fround\<close> is the rounding of a real number to a floating-point number.
\<close>

record env =
  catalog :: "string \<Rightarrow> error + video"
  playlist_of :: "string \<Rightarrow> error + playlist"
  transfer :: "stream \<Rightarrow> error + nat"
  ffmpeg :: "string list \<Rightarrow> (string \<times> nat) list \<Rightarrow> proc \<times> (string \<times> nat) list"
  http_get :: "string \<Rightarrow> error + nat \<times> nat"
  downloads_dir :: string
  temp_dir :: string
  fround :: "rat \<Rightarrow> rat"

text \<open>
  The operations a run performs on the outside world, in order: a download of a stream
  to a path (logged when it starts), a run of the tool, a deletion, a thumbnail write.
\<close>

datatype op = Download stream string | Run "string list" | Remove string | WriteThumb string

text \<open>
  \<open>events\<close> are the progress notifications of the browser front end (message and
  percentage; the optional \<^verbatim>\<open>video_info\<close> is left out) and the outcome lines the
  terminal front end prints (with no percentage, without colours and pictographs).
\<close>

record state =
  files :: "(string \<times> nat) list"
  ops :: "op list"
  events :: "(string \<times> int option) list"

text \<open>The streams a run has fetched or started to fetch so far, in order.\<close>

definition downloaded :: "state \<Rightarrow> stream list" where
  "downloaded st = concat (map (\<lambda>x. case x of Download s p \<Rightarrow> [s] | Run argv \<Rightarrow> []
                                        | Remove p \<Rightarrow> [] | WriteThumb p \<Rightarrow> []) (ops st))"

definition emit_progress :: "string \<Rightarrow> int option \<Rightarrow> state \<Rightarrow> state" where
  "emit_progress message progress st = st\<lparr>events := events st @ [(message, progress)]\<rparr>"

definition print_line :: "string \<Rightarrow> state \<Rightarrow> state" where
  "print_line message st = st\<lparr>events := events st @ [(message, None)]\<rparr>"

definition os_path_exists :: "state \<Rightarrow> string \<Rightarrow> bool" where
  "os_path_exists st p = (map_of (files st) p \<noteq> None)"

text \<open>\<^verbatim>\<open>os.path.exists(p) and os.path.getsize(p) > 0\<close>.\<close>

definition exists_nonempty :: "state \<Rightarrow> string \<Rightarrow> bool" where
  "exists_nonempty st p = (case map_of (files st) p of None \<Rightarrow> False | Some n \<Rightarrow> n > 0)"

text \<open>\<^verbatim>\<open>os.remove\<close> raises when the file is not there.\<close>

definition os_remove :: "string \<Rightarrow> state \<Rightarrow> error + state" where
  "os_remove p st =
     (if os_path_exists st p
      then Inr (st\<lparr>files := AList.delete p (files st), ops := ops st @ [Remove p]\<rparr>)
      else Inl FileNotFoundError)"

text \<open>\<^verbatim>\<open>subprocess.run(argv, check=...)\<close>: with \<^verbatim>\<open>check\<close>, a non-zero return code raises.\<close>

definition subprocess_run ::
  "env \<Rightarrow> string list \<Rightarrow> bool \<Rightarrow> state \<Rightarrow> (error + int \<times> string) \<times> state" where
  "subprocess_run e argv check st =
     (case ffmpeg e argv (files st) of
        (outcome, fs) \<Rightarrow>
          (let st' = st\<lparr>files := fs, ops := ops st @ [Run argv]\<rparr> in
           case outcome of
             Raised err \<Rightarrow> (Inl err, st')
           | Completed returncode errout \<Rightarrow>
               if check \<and> returncode \<noteq> 0 then (Inl CalledProcessError, st')
               else (Inr (returncode, errout), st')))"

text \<open>\<^verbatim>\<open>stream.download(output_path=..., filename_prefix=...)\<close>.\<close>

definition stream_download ::
  "env \<Rightarrow> stream \<Rightarrow> string \<Rightarrow> string \<Rightarrow> state \<Rightarrow> (error + string) \<times> state" where
  "stream_download e s output_path filename_prefix st =
     (let p = path_join output_path (filename_prefix @ default_filename s);
          st' = st\<lparr>ops := ops st @ [Download s p]\<rparr> in
      case transfer e s of
        Inl err \<Rightarrow> (Inl err, st')
      | Inr n \<Rightarrow> (Inr p, st'\<lparr>files := AList.update p n (files st')\<rparr>))"

text \<open>Success of the tool is a zero exit status.\<close>

definition exit_zero :: "proc \<Rightarrow> bool" where
  "exit_zero outcome = (case outcome of Completed returncode errout \<Rightarrow> returncode = 0 | Raised err \<Rightarrow> False)"

section \<open>The shared stages\<close>

subsection \<open>\<^verbatim>\<open>merge_audio_video\<close>\<close>

text \<open>
  \<^verbatim>\<open>
  try:
      subprocess.run(["ffmpeg", "-y", "-i", video_path, "-i", audio_path, "-c:v", "copy",
                      "-c:a", "aac", "-filter:a", "loudnorm", output_path], ..., check=True)
      os.remove(video_path)
      os.remove(audio_path)
      return True
  except Exception:
      return False
  \<close>
\<close>

definition merge_argv :: "string \<Rightarrow> string \<Rightarrow> string \<Rightarrow> string list" where
  "merge_argv video_path audio_path output_path =
     [''ffmpeg'', ''-y'', ''-i'', video_path, ''-i'', audio_path, ''-c:v'', ''copy'',
      ''-c:a'', ''aac'', ''-filter:a'', ''loudnorm'', output_path]"

definition merge_audio_video ::
  "env \<Rightarrow> string \<Rightarrow> string \<Rightarrow> string \<Rightarrow> state \<Rightarrow> bool \<times> state" where
  "merge_audio_video e video_path audio_path output_path st =
     (case subprocess_run e (merge_argv video_path audio_path output_path) True st of
        (Inl err, st1) \<Rightarrow> (False, st1)
      | (Inr r, st1) \<Rightarrow>
          (case os_remove video_path st1 of
             Inl err \<Rightarrow> (False, st1)
           | Inr st2 \<Rightarrow>
               (case os_remove audio_path st2 of
                  Inl err \<Rightarrow> (False, st2)
                | Inr st3 \<Rightarrow> (True, st3))))"

subsection \<open>Stream selection\<close>

text \<open>
  \<^verbatim>\<open>
  selected_video = None
  for s in video_streams:
      res = int(s.resolution.replace("p", ""))
      if res <= int(target_quality):
          selected_video = s
          break
  if not selected_video:
      selected_video = video_streams.first()
  \<close>
\<close>

fun scan_video :: "string \<Rightarrow> stream list \<Rightarrow> error + stream option" where
  "scan_video target_quality [] = Inr None"
| "scan_video target_quality (s # rest) =
     (case resolution s of
        None \<Rightarrow> Inl AttributeError
      | Some res \<Rightarrow>
          (case py_int target_quality of
             Inl err \<Rightarrow> Inl err
           | Inr q \<Rightarrow> if int res \<le> q then Inr (Some s) else scan_video target_quality rest))"

definition select_video :: "string \<Rightarrow> stream list \<Rightarrow> error + stream option" where
  "select_video target_quality video_streams =
     (case scan_video target_quality video_streams of
        Inl err \<Rightarrow> Inl err
      | Inr (Some s) \<Rightarrow> Inr (Some s)
      | Inr None \<Rightarrow> Inr (first video_streams))"

definition video_streams_of :: "video \<Rightarrow> stream list" where
  "video_streams_of yt =
     desc (order_by resolution
       (filter (\<lambda>s. is_adaptive s \<and> mtype s = Video \<and> subtype s = ''mp4'') (streams yt)))"

definition audio_streams_of :: "video \<Rightarrow> stream list" where
  "audio_streams_of yt =
     desc (order_by abr (filter (\<lambda>s. is_adaptive s \<and> mtype s = Audio) (streams yt)))"

text \<open>\<^verbatim>\<open>yt.streams.filter(only_audio=True).order_by("abr").desc().first()\<close>.\<close>

definition best_audio_only :: "video \<Rightarrow> stream option" where
  "best_audio_only yt = first (desc (order_by abr (filter only_audio (streams yt))))"

text \<open>
  \<^verbatim>\<open>
  yt.streams.filter(progressive=True, file_extension="mp4", res=f"{target_quality}p")
      .order_by("resolution").desc().first()
  or yt.streams.filter(progressive=True).order_by("resolution").desc().first()
  \<close>
\<close>

definition progressive_fallback :: "string \<Rightarrow> video \<Rightarrow> stream option" where
  "progressive_fallback target_quality yt =
     (case first (desc (order_by resolution
             (filter (\<lambda>s. is_progressive s \<and> subtype s = ''mp4'' \<and>
                          resolution_str s = Some (target_quality @ ''p'')) (streams yt)))) of
        Some s \<Rightarrow> Some s
      | None \<Rightarrow> first (desc (order_by resolution (filter is_progressive (streams yt)))))"

section \<open>The browser front end (\<^verbatim>\<open>app.py\<close>)\<close>

subsection \<open>The progress callback\<close>

text \<open>
  \<^verbatim>\<open>
  def progress_callback(stream, chunk, bytes_remaining):
      total = stream.filesize
      downloaded = total - bytes_remaining
      percent = int((downloaded / total) * 100)
      emit_progress(f"Downloading... {percent}%", percent)
  \<close>
  \<^verbatim>\<open>/\<close> is the true division of two integers: it raises on a zero divisor, and its
  result and the product are rounded to floating-point numbers. \<^verbatim>\<open>int\<close> cuts towards
  zero.
\<close>

definition py_trunc :: "rat \<Rightarrow> int" where
  "py_trunc x = (if x \<ge> 0 then \<lfloor>x\<rfloor> else \<lceil>x\<rceil>)"

definition true_div :: "env \<Rightarrow> int \<Rightarrow> int \<Rightarrow> error + rat" where
  "true_div e a b = (if b = 0 then Inl ZeroDivisionError else Inr (fround e (of_int a / of_int b)))"

definition progress_callback :: "env \<Rightarrow> stream \<Rightarrow> int \<Rightarrow> state \<Rightarrow> error + state" where
  "progress_callback e s bytes_remaining st =
     (let total = int (filesize s);
          downloaded = total - bytes_remaining in
      case true_div e downloaded total of
        Inl err \<Rightarrow> Inl err
      | Inr ratio \<Rightarrow>
          (let percent = py_trunc (fround e (ratio * 100)) in
           Inr (emit_progress (''Downloading... '' @ str_int percent @ ''%'') (Some percent) st)))"

subsection \<open>\<^verbatim>\<open>download_video_web\<close>\<close>

datatype kind = KVideo | KAudio

text \<open>The dictionaries the browser front end returns.\<close>

datatype result = Success string kind | Failure string | PlaylistResult "result list"

text \<open>
  \<^verbatim>\<open>save_thumbnail\<close>: the image is written when the server answers 200; every exception
  is swallowed.
\<close>

definition save_thumbnail :: "env \<Rightarrow> string \<Rightarrow> string \<Rightarrow> state \<Rightarrow> state" where
  "save_thumbnail e url final_filename st =
     (let base_name = fst (splitext final_filename);
          thumb_path = path_join (downloads_dir e) (base_name @ ''.jpg'') in
      case http_get e url of
        Inl err \<Rightarrow> st
      | Inr (status_code, n) \<Rightarrow>
          if status_code = 200
          then st\<lparr>files := AList.update thumb_path n (files st), ops := ops st @ [WriteThumb thumb_path]\<rparr>
          else st)"

text \<open>
  The two handlers of the inner \<^verbatim>\<open>try\<close>, lines 169 to 174: \<^verbatim>\<open>TimeoutExpired\<close> first,
  any other exception second.
\<close>

definition conversion_handlers :: "error \<Rightarrow> state \<Rightarrow> result \<times> state" where
  "conversion_handlers err st =
     (if err = TimeoutExpired
      then (Failure ''Audio conversion timed out'',
            emit_progress ''Error: Conversion timeout'' (Some 0) st)
      else (Failure (''Conversion error: '' @ error_str err),
            emit_progress (''Error: '' @ error_str err) (Some 0) st))"

text \<open>
  The conversion of the audio-only path, lines 139 to 174: the MP3 name, the tool run
  inside the inner \<^verbatim>\<open>try\<close>, the check of the output and the removal of the input. Every
  branch returns a result.
\<close>

definition convert_to_mp3_web :: "env \<Rightarrow> video \<Rightarrow> string \<Rightarrow> state \<Rightarrow> result \<times> state" where
  "convert_to_mp3_web e yt audio_file_path st =
     (let mp3_path = fst (splitext audio_file_path) @ ''.mp3'';
          st1 = emit_progress ''Converting to MP3...'' (Some 80) st in
      case subprocess_run e
             [''ffmpeg'', ''-y'', ''-i'', audio_file_path, ''-q:a'', ''0'', ''-map'', ''a'', mp3_path]
             False st1 of
        (Inl err, st2) \<Rightarrow> conversion_handlers err st2
      | (Inr (returncode, errout), st2) \<Rightarrow>
          if returncode \<noteq> 0
          then (Failure (''Audio conversion failed: '' @ take 100 errout),
                emit_progress (''Conversion failed: '' @ take 100 errout) (Some 0) st2)
          else if exists_nonempty st2 mp3_path
          then (case os_remove audio_file_path st2 of
                  Inl err \<Rightarrow> conversion_handlers err st2
                | Inr st3 \<Rightarrow>
                    (Success (basename mp3_path) KAudio,
                     emit_progress ''Download complete!'' (Some 100)
                       (save_thumbnail e (thumbnail_url yt) (basename mp3_path) st3)))
          else (Failure ''MP3 conversion produced empty file'',
                emit_progress ''Error: MP3 file not created properly'' (Some 0) st2))"

text \<open>The audio-only path, lines 129 to 174.\<close>

definition download_audio_web :: "env \<Rightarrow> video \<Rightarrow> state \<Rightarrow> (error + result) \<times> state" where
  "download_audio_web e yt st =
     (let st1 = emit_progress ''Downloading audio only...'' (Some 20) st in
      case best_audio_only yt of
        None \<Rightarrow>
          (Inr (Failure ''No audio stream available''),
           emit_progress ''Error: No audio stream found'' (Some 0) st1)
      | Some s \<Rightarrow>
          (case stream_download e s (downloads_dir e) [] st1 of
             (Inl err, st2) \<Rightarrow> (Inl err, st2)
           | (Inr audio_file_path, st2) \<Rightarrow>
               (case convert_to_mp3_web e yt audio_file_path st2 of (r, st3) \<Rightarrow> (Inr r, st3))))"

text \<open>The progressive fallback, lines 197 to 207.\<close>

definition fallback_web :: "env \<Rightarrow> video \<Rightarrow> string \<Rightarrow> state \<Rightarrow> (error + result) \<times> state" where
  "fallback_web e yt target_quality st =
     (let st1 = emit_progress ''Using progressive stream fallback...'' (Some 30) st in
      case progressive_fallback target_quality yt of
        None \<Rightarrow> (Inl AttributeError, st1)
      | Some s \<Rightarrow>
          (case stream_download e s (downloads_dir e) [] st1 of
             (Inl err, st2) \<Rightarrow> (Inl err, st2)
           | (Inr file_path, st2) \<Rightarrow>
               (Inr (Success (basename file_path) KVideo),
                emit_progress ''Download complete!'' (Some 100)
                  (save_thumbnail e (thumbnail_url yt) (basename file_path) st2))))"

text \<open>
  The two downloads, the output name and the merge, lines 209 to 228. \<open>None\<close> is a run
  in which \<^verbatim>\<open>get_unique_path\<close> does not return.
\<close>

definition merge_path_web ::
  "env \<Rightarrow> video \<Rightarrow> stream \<Rightarrow> stream \<Rightarrow> state \<Rightarrow> ((error + result) \<times> state) option" where
  "merge_path_web e yt selected_video audio_stream st =
     (let st1 = emit_progress (''Downloading video ('' @ res_label selected_video @ '')...'') (Some 30) st in
      case stream_download e selected_video (temp_dir e) ''video_'' st1 of
        (Inl err, st2) \<Rightarrow> Some (Inl err, st2)
      | (Inr video_path, st2) \<Rightarrow>
          (let st3 = emit_progress (''Downloading audio ('' @ abr_label audio_stream @ '')...'') (Some 60) st2 in
           case stream_download e audio_stream (temp_dir e) ''audio_'' st3 of
             (Inl err, st4) \<Rightarrow> Some (Inl err, st4)
           | (Inr audio_path, st4) \<Rightarrow>
               (case get_unique_path (os_path_exists st4)
                       (path_join (downloads_dir e)
                          (sanitize_filename (title yt) @ '' ('' @ res_label selected_video @ '').mp4'')) of
                  None \<Rightarrow> None
                | Some output_file \<Rightarrow>
                    (let st5 = emit_progress ''Merging audio and video...'' (Some 85) st4 in
                     case merge_audio_video e video_path audio_path output_file st5 of
                       (merged, st6) \<Rightarrow>
                         if merged
                         then Some (Inr (Success (basename output_file) KVideo),
                                    emit_progress ''Download complete!'' (Some 100)
                                      (save_thumbnail e (thumbnail_url yt) (basename output_file) st6))
                         else Some (Inr (Failure ''Merge failed''),
                                    emit_progress ''Merge failed, but files saved'' (Some 100) st6)))))"

text \<open>
  The video path, lines 176 to 228. The list \<^verbatim>\<open>available_res\<close> of lines 177 to 180 is
  computed and never read, and is left out.
\<close>

definition download_adaptive_web ::
  "env \<Rightarrow> video \<Rightarrow> string \<Rightarrow> state \<Rightarrow> ((error + result) \<times> state) option" where
  "download_adaptive_web e yt quality st =
     (let target_quality = str_replace ''p'' [] quality;
          video_streams = video_streams_of yt;
          audio_streams = audio_streams_of yt in
      case select_video target_quality video_streams of
        Inl err \<Rightarrow> Some (Inl err, st)
      | Inr None \<Rightarrow> Some (fallback_web e yt target_quality st)
      | Inr (Some selected_video) \<Rightarrow>
          (case first audio_streams of
             None \<Rightarrow> Some (fallback_web e yt target_quality st)
           | Some audio_stream \<Rightarrow> merge_path_web e yt selected_video audio_stream st))"

text \<open>
  The whole function: the outer \<^verbatim>\<open>try\<close> turns every exception of the body into a failure
  result and an event carrying its text.
\<close>

definition download_video_web ::
  "env \<Rightarrow> string \<Rightarrow> string \<Rightarrow> bool \<Rightarrow> state \<Rightarrow> (result \<times> state) option" where
  "download_video_web e url target_quality audio_only st =
     (let st0 = emit_progress ''Fetching video information...'' (Some 0) st;
          body =
            (case catalog e url of
               Inl err \<Rightarrow> Some (Inl err, st0)
             | Inr yt \<Rightarrow>
                 (let st1 = emit_progress (''Processing: '' @ title yt) (Some 10)
                              (emit_progress (''Processing: '' @ title yt) (Some 10) st0) in
                  if audio_only then Some (download_audio_web e yt st1)
                  else download_adaptive_web e yt target_quality st1))
      in case body of
           None \<Rightarrow> None
         | Some (Inl err, st') \<Rightarrow>
             Some (Failure (error_str err), emit_progress (''Error: '' @ error_str err) (Some 0) st')
         | Some (Inr r, st') \<Rightarrow> Some (r, st'))"

subsection \<open>\<^verbatim>\<open>download_playlist_web\<close>\<close>




section \<open>The terminal front end (\<^verbatim>\<open>yd.py\<close>)\<close>

text \<open>
  \<^verbatim>\<open>download_video\<close> returns nothing; what it does is the state it leaves. Of its console
  lines the model keeps those that report an outcome; the lines that describe the catalog
  entry (title, author, duration, available resolutions, estimated size) are left out.
\<close>

text \<open>
  The audio-only path, lines 76 to 88:
  \<^verbatim>\<open>
  stream = yt.streams.filter(only_audio=True).order_by("abr").desc().first()
  mp4_path = stream.download(output_path=DOWNLOADS_DIR)
  mp3_path = mp4_path.replace(".mp4", ".mp3")
  subprocess.run(["ffmpeg", "-y", "-i", mp4_path, mp3_path], ...)
  os.remove(mp4_path)
  print(Fore.GREEN + f"... Audio saved as: {mp3_path}\n")
  return
  \<close>
\<close>

definition download_audio_cli :: "env \<Rightarrow> video \<Rightarrow> state \<Rightarrow> (error + unit) \<times> state" where
  "download_audio_cli e yt st =
     (case best_audio_only yt of
        None \<Rightarrow> (Inl AttributeError, st)
      | Some s \<Rightarrow>
          (case stream_download e s (downloads_dir e) [] st of
             (Inl err, st1) \<Rightarrow> (Inl err, st1)
           | (Inr mp4_path, st1) \<Rightarrow>
               (let mp3_path = str_replace ''.mp4'' ''.mp3'' mp4_path in
                case subprocess_run e [''ffmpeg'', ''-y'', ''-i'', mp4_path, mp3_path] False st1 of
                  (Inl err, st2) \<Rightarrow> (Inl err, st2)
                | (Inr r, st2) \<Rightarrow>
                    (case os_remove mp4_path st2 of
                       Inl err \<Rightarrow> (Inl err, st2)
                     | Inr st3 \<Rightarrow> (Inr (), print_line (''Audio saved as: '' @ mp3_path) st3)))))"

definition fallback_cli :: "env \<Rightarrow> video \<Rightarrow> string \<Rightarrow> state \<Rightarrow> (error + unit) \<times> state" where
  "fallback_cli e yt target_quality st =
     (let st1 = print_line ''No suitable adaptive stream found, trying progressive fallback...'' st in
      case progressive_fallback target_quality yt of
        None \<Rightarrow> (Inl AttributeError, st1)
      | Some s \<Rightarrow>
          (case stream_download e s (downloads_dir e) [] st1 of
             (Inl err, st2) \<Rightarrow> (Inl err, st2)
           | (Inr file_path, st2) \<Rightarrow>
               (Inr (), print_line (''Download complete: '' @ file_path) st2)))"

definition merge_path_cli ::
  "env \<Rightarrow> video \<Rightarrow> stream \<Rightarrow> stream \<Rightarrow> state \<Rightarrow> ((error + unit) \<times> state) option" where
  "merge_path_cli e yt selected_video audio_stream st =
     (case stream_download e selected_video (temp_dir e) ''video_'' st of
        (Inl err, st2) \<Rightarrow> Some (Inl err, st2)
      | (Inr video_path, st2) \<Rightarrow>
          (case stream_download e audio_stream (temp_dir e) ''audio_'' st2 of
             (Inl err, st4) \<Rightarrow> Some (Inl err, st4)
           | (Inr audio_path, st4) \<Rightarrow>
               (case get_unique_path (os_path_exists st4)
                       (path_join (downloads_dir e)
                          (sanitize_filename (title yt) @ '' ('' @ res_label selected_video @ '').mp4'')) of
                  None \<Rightarrow> None
                | Some output_file \<Rightarrow>
                    (case merge_audio_video e video_path audio_path output_file st4 of
                       (merged, st6) \<Rightarrow>
                         if merged
                         then Some (Inr (), print_line (''Download complete: '' @ output_file) st6)
                         else Some (Inr (), print_line ''Merge failed. Files saved separately.'' st6)))))"

definition download_adaptive_cli ::
  "env \<Rightarrow> video \<Rightarrow> string \<Rightarrow> state \<Rightarrow> ((error + unit) \<times> state) option" where
  "download_adaptive_cli e yt quality st =
     (let target_quality = str_replace ''p'' [] quality;
          video_streams = video_streams_of yt;
          audio_streams = audio_streams_of yt in
      case select_video target_quality video_streams of
        Inl err \<Rightarrow> Some (Inl err, st)
      | Inr None \<Rightarrow> Some (fallback_cli e yt target_quality st)
      | Inr (Some selected_video) \<Rightarrow>
          (case first audio_streams of
             None \<Rightarrow> Some (fallback_cli e yt target_quality st)
           | Some audio_stream \<Rightarrow> merge_path_cli e yt selected_video audio_stream st))"

definition download_video ::
  "env \<Rightarrow> string \<Rightarrow> string \<Rightarrow> bool \<Rightarrow> state \<Rightarrow> state option" where
  "download_video e url target_quality audio_only st =
     (let body =
            (case catalog e url of
               Inl err \<Rightarrow> Some (Inl err, st)
             | Inr yt \<Rightarrow>
                 if audio_only then Some (download_audio_cli e yt st)
                 else download_adaptive_cli e yt target_quality st)
      in case body of
           None \<Rightarrow> None
         | Some (Inl err, st') \<Rightarrow> Some (print_line (''Error downloading video: '' @ error_str err) st')
         | Some (Inr u, st') \<Rightarrow> Some st')"

section \<open>Comparing two runs\<close>

text \<open>
  Two states agree on the outside world when they hold the same files and the same
  operations; their events may differ. \<open>same_but_thumbnail w t\<close> allows \<open>w\<close> one more
  operation at the end, the write of a thumbnail.
\<close>

definition same_files_ops :: "state \<Rightarrow> state \<Rightarrow> bool" where
  "same_files_ops a b = (files a = files b \<and> ops a = ops b)"

definition same_but_thumbnail :: "state \<Rightarrow> state \<Rightarrow> bool" where
  "same_but_thumbnail w t =
     (same_files_ops w t \<or>
      (\<exists>p n. files w = AList.update p n (files t) \<and> ops w = ops t @ [WriteThumb p]))"

section \<open>Concrete catalog entries and environments\<close>

text \<open>The inputs at which the theorems below are instantiated and the code is run.\<close>

definition v1080 :: stream where
  "v1080 = \<lparr>mtype = Video, subtype = ''mp4'', is_adaptive = True, resolution = Some 1080,
             abr = None, filesize = 900, default_filename = ''Clip.mp4''\<rparr>"

definition v720 :: stream where
  "v720 = \<lparr>mtype = Video, subtype = ''mp4'', is_adaptive = True, resolution = Some 720,
            abr = None, filesize = 500, default_filename = ''Clip.mp4''\<rparr>"

definition v480 :: stream where
  "v480 = \<lparr>mtype = Video, subtype = ''mp4'', is_adaptive = True, resolution = Some 480,
            abr = None, filesize = 300, default_filename = ''Clip.mp4''\<rparr>"

definition a128 :: stream where
  "a128 = \<lparr>mtype = Audio, subtype = ''mp4'', is_adaptive = True, resolution = None,
            abr = Some 128, filesize = 40, default_filename = ''Clip.mp4''\<rparr>"

definition a48 :: stream where
  "a48 = \<lparr>mtype = Audio, subtype = ''mp4'', is_adaptive = True, resolution = None,
           abr = Some 48, filesize = 20, default_filename = ''Clip.mp4''\<rparr>"

text \<open>A tool that always succeeds and writes seven bytes to its last argument.\<close>

definition tool_ok :: "string list \<Rightarrow> (string \<times> nat) list \<Rightarrow> proc \<times> (string \<times> nat) list" where
  "tool_ok argv fs = (Completed 0 [], AList.update (last argv) 7 fs)"

text \<open>A tool that exits with status 1 and writes nothing.\<close>

definition tool_fail :: "string list \<Rightarrow> (string \<times> nat) list \<Rightarrow> proc \<times> (string \<times> nat) list" where
  "tool_fail argv fs = (Completed 1 ''error'', fs)"

text \<open>A tool that exits with status 0 and leaves an empty output file.\<close>

definition tool_empty :: "string list \<Rightarrow> (string \<times> nat) list \<Rightarrow> proc \<times> (string \<times> nat) list" where
  "tool_empty argv fs = (Completed 0 [], AList.update (last argv) 0 fs)"

definition clip :: video where
  "clip = \<lparr>title = ''Clip'', author = ''A'', length_s = 61, thumbnail_url = ''http://t/1.jpg'',
            streams = [v480, a48, v1080, a128, v720]\<rparr>"

text \<open>An entry of the catalog with no stream at all.\<close>

definition bare :: video where
  "bare = \<lparr>title = ''Bare'', author = ''B'', length_s = 5, thumbnail_url = ''http://t/2.jpg'',
            streams = []\<rparr>"

text \<open>A playlist of three members, the second of which has no stream.\<close>

definition three_items :: playlist where
  "three_items =
     \<lparr>pl_title = ''List'',
      videos = [\<lparr>entry_title = ''Clip'', watch_url = ''u1''\<rparr>,
                \<lparr>entry_title = ''Bare'', watch_url = ''u2''\<rparr>,
                \<lparr>entry_title = ''Clip'', watch_url = ''u3''\<rparr>]\<rparr>"

definition env_with ::
  "(string list \<Rightarrow> (string \<times> nat) list \<Rightarrow> proc \<times> (string \<times> nat) list) \<Rightarrow> env" where
  "env_with tool =
     \<lparr>catalog = (\<lambda>url. if url = ''u1'' then Inr clip
                          else if url = ''u2'' then Inr bare
                          else if url = ''u3'' then Inr clip
                          else Inl (External ''unavailable'')),
      playlist_of = (\<lambda>url. if url = ''pl'' then Inr three_items
                             else Inl (External ''no such playlist'')),
      transfer = (\<lambda>s. Inr (filesize s)),
      ffmpeg = tool,
      http_get = (\<lambda>url. Inr (200, 3)),
      downloads_dir = ''/d'',
      temp_dir = ''/tmp'',
      fround = (\<lambda>x. x)\<rparr>"

definition empty_state :: state where
  "empty_state = \<lparr>files = [], ops = [], events = []\<rparr>"


section \<open>The filename policy\<close>

subsection \<open>Stripping and sanitising\<close>

lemma set_strip_subset: "set (strip s) \<subseteq> set s"
  unfolding strip_def lstrip_def rstrip_def
  by (metis set_dropWhileD set_rev subsetI)

lemma dropWhile_shorter: "P a \<Longrightarrow> dropWhile P xs \<noteq> a # xs"
  by (metis length_dropWhile_le impossible_Cons)

lemma lstrip_fixed: "lstrip s = s \<longleftrightarrow> (s = [] \<or> \<not> isspace (hd s))"
  unfolding lstrip_def
  by (cases s) (auto simp: dropWhile_shorter)

lemma rstrip_fixed: "rstrip s = s \<longleftrightarrow> (s = [] \<or> \<not> isspace (last s))"
proof -
  have "rstrip s = s \<longleftrightarrow> lstrip (rev s) = rev s"
    unfolding rstrip_def lstrip_def by (metis rev_rev_ident)
  also have "\<dots> \<longleftrightarrow> (s = [] \<or> \<not> isspace (last s))"
    by (simp add: lstrip_fixed hd_rev)
  finally show ?thesis .
qed

lemma rstrip_idem: "rstrip (rstrip s) = rstrip s"
  unfolding rstrip_def by (simp add: dropWhile_idem)

lemma rstrip_last: "rstrip s \<noteq> [] \<Longrightarrow> \<not> isspace (last (rstrip s))"
  using rstrip_idem rstrip_fixed by blast

lemma lstrip_last: "lstrip s \<noteq> [] \<Longrightarrow> last (lstrip s) = last s"
  unfolding lstrip_def
  by (metis append_Nil2 dropWhile_eq_Nil_conv last_appendR takeWhile_dropWhile_id)

lemma lstrip_hd: "lstrip s \<noteq> [] \<Longrightarrow> \<not> isspace (hd (lstrip s))"
  unfolding lstrip_def by (simp add: hd_dropWhile)

lemma strip_idem: "strip (strip s) = strip s"
proof -
  let ?r = "rstrip s"
  have r: "rstrip (lstrip ?r) = lstrip ?r"
  proof (cases "lstrip ?r = []")
    case True then show ?thesis by (simp add: rstrip_def)
  next
    case False
    then have "?r \<noteq> []" by (auto simp: lstrip_def)
    then have "\<not> isspace (last ?r)" by (rule rstrip_last)
    with False show ?thesis by (simp add: rstrip_fixed lstrip_last)
  qed
  show ?thesis unfolding strip_def r by (simp add: lstrip_def dropWhile_idem)
qed

lemma strip_fixed: "strip s = s \<longleftrightarrow> (s = [] \<or> (\<not> isspace (hd s) \<and> \<not> isspace (last s)))"
proof
  assume h: "strip s = s"
  show "s = [] \<or> (\<not> isspace (hd s) \<and> \<not> isspace (last s))"
  proof (cases "s = []")
    case False
    with h have ne: "lstrip (rstrip s) \<noteq> []" by (simp add: strip_def)
    then have rne: "rstrip s \<noteq> []" by (auto simp: lstrip_def)
    have "\<not> isspace (hd s)" using lstrip_hd[OF ne] h by (simp add: strip_def)
    moreover have "\<not> isspace (last s)"
      using lstrip_last[OF ne] rstrip_last[OF rne] h by (simp add: strip_def)
    ultimately show ?thesis by simp
  qed simp
next
  assume "s = [] \<or> (\<not> isspace (hd s) \<and> \<not> isspace (last s))"
  then show "strip s = s"
  proof
    assume "s = []" then show ?thesis by (simp add: strip_def lstrip_def rstrip_def)
  next
    assume a: "\<not> isspace (hd s) \<and> \<not> isspace (last s)"
    then have "rstrip s = s" by (simp add: rstrip_fixed)
    moreover have "lstrip s = s" using a by (simp add: lstrip_fixed)
    ultimately show ?thesis by (simp add: strip_def)
  qed
qed

text \<open>
  C10. \<^verbatim>\<open>sanitize_filename\<close> is idempotent, and its fixed points are exactly the names
  with none of the characters \<^verbatim>\<open>\ / * ? : " < > |\<close> and with no whitespace at either end.
\<close>

theorem sanitize_filename_idempotent:
  "sanitize_filename (sanitize_filename s) = sanitize_filename s \<and>
   (sanitize_filename s = s \<longleftrightarrow>
      set s \<inter> set illegal_chars = {} \<and> (s = [] \<or> (\<not> isspace (hd s) \<and> \<not> isspace (last s))))"
proof
  let ?f = "filter (\<lambda>c. c \<notin> set illegal_chars)"
  have "set (strip (?f s)) \<subseteq> set (?f s)" by (rule set_strip_subset)
  then have "?f (strip (?f s)) = strip (?f s)" by (auto simp: filter_id_conv)
  then show "sanitize_filename (sanitize_filename s) = sanitize_filename s"
    by (simp add: sanitize_filename_def strip_idem)
  show "sanitize_filename s = s \<longleftrightarrow>
      set s \<inter> set illegal_chars = {} \<and> (s = [] \<or> (\<not> isspace (hd s) \<and> \<not> isspace (last s)))"
  proof
    assume h: "sanitize_filename s = s"
    have "set s \<subseteq> set (?f s)" using set_strip_subset[of "?f s"] h by (simp add: sanitize_filename_def)
    then have clean: "set s \<inter> set illegal_chars = {}" by auto
    then have "?f s = s" by (auto simp: filter_id_conv)
    with h have "strip s = s" by (simp add: sanitize_filename_def)
    with clean show "set s \<inter> set illegal_chars = {} \<and> (s = [] \<or> (\<not> isspace (hd s) \<and> \<not> isspace (last s)))"
      by (simp add: strip_fixed)
  next
    assume a: "set s \<inter> set illegal_chars = {} \<and> (s = [] \<or> (\<not> isspace (hd s) \<and> \<not> isspace (last s)))"
    then have "?f s = s" by (auto simp: filter_id_conv)
    moreover have "strip s = s" using a by (simp add: strip_fixed)
    ultimately show "sanitize_filename s = s" by (simp add: sanitize_filename_def)
  qed
qed

lemma sanitize_example: "sanitize_filename ''My: Video / Title?'' = ''My Video  Title''"
  by (simp add: sanitize_filename_def strip_def lstrip_def rstrip_def illegal_chars_def isspace_def)

theorem sanitize_filename_idempotent_witness:
  "sanitize_filename (sanitize_filename ''  My: Video / Title? '') = ''My Video  Title'' \<and>
   sanitize_filename ''My Video  Title'' = ''My Video  Title''"
  using sanitize_filename_idempotent [of "''  My: Video / Title? ''"]
  by (simp add: sanitize_filename_def strip_def lstrip_def rstrip_def illegal_chars_def isspace_def)

subsection \<open>Unique output paths\<close>

lemma splitext_append: "fst (splitext p) @ snd (splitext p) = p"
  by (simp add: splitext_def Let_def)

lemma unique_loop_first_free:
  assumes "\<not> ex (base @ ''_'' @ str_nat k @ ext)"
    and "\<forall>j. c \<le> j \<and> j < k \<longrightarrow> ex (base @ ''_'' @ str_nat j @ ext)"
    and "c \<le> k"
  shows "unique_loop ex base ext (base @ ''_'' @ str_nat c @ ext) (c + 1)
           = Some (base @ ''_'' @ str_nat k @ ext)"
  using assms
proof (induction "k - c" arbitrary: c)
  case 0
  then have "c = k" by simp
  with "0.prems"(1) show ?case by (subst unique_loop.simps) simp
next
  case (Suc d)
  then have lt: "c < k" by simp
  with Suc.prems(2) have e: "ex (base @ ''_'' @ str_nat c @ ext)" by simp
  have "unique_loop ex base ext (base @ ''_'' @ str_nat (c + 1) @ ext) (c + 1 + 1)
           = Some (base @ ''_'' @ str_nat k @ ext)"
    using Suc.hyps(2) Suc.prems lt by (intro Suc.hyps(1)) auto
  with e show ?case by (subst unique_loop.simps) simp
qed

lemma get_unique_path_absent: "\<not> ex p \<Longrightarrow> get_unique_path ex p = Some p"
  unfolding get_unique_path_def by (subst unique_loop.simps) (simp split: prod.splits)

lemma get_unique_path_present:
  assumes "ex p" "1 \<le> k" "\<not> ex (candidate p k)"
    and "\<forall>j. 1 \<le> j \<and> j < k \<longrightarrow> ex (candidate p j)"
  shows "get_unique_path ex p = Some (candidate p k)"
proof -
  obtain base ext where s: "splitext p = (base, ext)" by (cases "splitext p")
  have "unique_loop ex base ext p 1 = unique_loop ex base ext (base @ ''_'' @ str_nat 1 @ ext) (1 + 1)"
    using assms(1) by (subst unique_loop.simps) simp
  also have "\<dots> = Some (base @ ''_'' @ str_nat k @ ext)"
    using assms s by (intro unique_loop_first_free) (auto simp: candidate_def)
  finally show ?thesis by (simp add: get_unique_path_def s candidate_def)
qed







text \<open>
  C9. For every path \<open>p\<close> and every existence predicate \<open>ex\<close>: if \<open>p\<close> does not exist,
  \<^verbatim>\<open>get_unique_path\<close> returns \<open>p\<close> unchanged; if \<open>p\<close> exists, it returns the first
  path of the sequence \<open>base_1, base_2, ...\<close> (the suffix put between the two parts of
  \<^verbatim>\<open>splitext\<close>, which always reassemble to \<open>p\<close>) that does not exist: the candidate \<open>k\<close>
  such that every earlier candidate exists.
\<close>

theorem get_unique_path_first_unused:
  "fst (splitext p) @ snd (splitext p) = p \<and>
   (\<not> ex p \<longrightarrow> get_unique_path ex p = Some p) \<and>
   (ex p \<and> 1 \<le> k \<and> \<not> ex (candidate p k) \<and> (\<forall>j. 1 \<le> j \<and> j < k \<longrightarrow> ex (candidate p j))
      \<longrightarrow> get_unique_path ex p = Some (candidate p k))"
  using splitext_append get_unique_path_absent get_unique_path_present by blast

theorem get_unique_path_first_unused_witness:
  "get_unique_path (\<lambda>q. q \<in> set [''d/a.mp4'', ''d/a_1.mp4'', ''d/a_3.mp4'']) ''d/a.mp4'' = Some ''d/a_2.mp4'' \<and>
   get_unique_path (\<lambda>q. q \<in> set [''d/a.mp4'', ''d/a_1.mp4'', ''d/a_3.mp4'']) ''d/b.mp4'' = Some ''d/b.mp4''"
proof -
  let ?ex = "\<lambda>q. q \<in> set [''d/a.mp4'', ''d/a_1.mp4'', ''d/a_3.mp4'']"
  have c1: "candidate ''d/a.mp4'' 1 = ''d/a_1.mp4''"
    by (simp add: candidate_def splitext_def rfind_def digit_char_def str_nat.simps)
  have c2: "candidate ''d/a.mp4'' 2 = ''d/a_2.mp4''"
    by (simp add: candidate_def splitext_def rfind_def digit_char_def str_nat.simps)
  have all: "\<forall>j. 1 \<le> j \<and> j < (2::nat) \<longrightarrow> ?ex (candidate ''d/a.mp4'' j)"
  proof (intro allI impI)
    fix j :: nat assume "1 \<le> j \<and> j < 2"
    then have "j = 1" by simp
    then show "?ex (candidate ''d/a.mp4'' j)" using c1 by simp
  qed
  have "get_unique_path ?ex ''d/a.mp4'' = Some (candidate ''d/a.mp4'' 2)"
    using get_unique_path_first_unused [of "''d/a.mp4''" ?ex 2] all by (simp add: c2)
  moreover have "get_unique_path ?ex ''d/b.mp4'' = Some ''d/b.mp4''"
    using get_unique_path_first_unused [of "''d/b.mp4''" ?ex 1] by simp
  ultimately show ?thesis by (simp add: c2)
qed

section \<open>The URL normalizer\<close>

lemma contains_sublist: "contains sub s = sublist sub s"
  by (induction s) (auto simp: sublist_Cons_right)

lemma contains_iff: "contains sub s \<longleftrightarrow> (\<exists>a b. s = a @ sub @ b)"
  by (simp add: contains_sublist sublist_def)

lemma match_short_link_https:
  "match_short_link (''https://youtu.be/'' @ r) =
     (if length r \<ge> 11 \<and> list_all is_id_char (take 11 r) then Some (take 11 r) else None)"
  by (simp add: match_short_link_def)

lemma match_short_link_http:
  "match_short_link (''http://youtu.be/'' @ r) =
     (if length r \<ge> 11 \<and> list_all is_id_char (take 11 r) then Some (take 11 r) else None)"
  by (simp add: match_short_link_def)

lemma match_short_link_other:
  "\<not> prefix ''https://youtu.be/'' url \<Longrightarrow> \<not> prefix ''http://youtu.be/'' url \<Longrightarrow>
   match_short_link url = None"
  by (simp add: match_short_link_def)

lemma match_short_link_Some:
  "match_short_link url = Some vid \<longleftrightarrow>
     length vid = 11 \<and> list_all is_id_char vid \<and>
     (\<exists>rest. url = ''https://youtu.be/'' @ vid @ rest \<or> url = ''http://youtu.be/'' @ vid @ rest)"
proof
  assume m: "match_short_link url = Some vid"
  have "prefix ''https://youtu.be/'' url \<or> prefix ''http://youtu.be/'' url"
    using m match_short_link_other[of url] by fastforce
  then obtain r where r: "url = ''https://youtu.be/'' @ r \<or> url = ''http://youtu.be/'' @ r"
    unfolding prefix_def by blast
  have c: "(if length r \<ge> 11 \<and> list_all is_id_char (take 11 r) then Some (take 11 r) else None) = Some vid"
    using r m match_short_link_https[of r] match_short_link_http[of r] by metis
  then have f: "length r \<ge> 11" "list_all is_id_char (take 11 r)" "vid = take 11 r"
    by (simp_all split: if_splits)
  have l: "length vid = 11" using f(1) f(3) by simp
  have "r = vid @ drop 11 r" using f(3) by simp
  with r have "url = ''https://youtu.be/'' @ vid @ drop 11 r \<or> url = ''http://youtu.be/'' @ vid @ drop 11 r"
    by metis
  with l f(2) f(3) show "length vid = 11 \<and> list_all is_id_char vid \<and>
     (\<exists>rest. url = ''https://youtu.be/'' @ vid @ rest \<or> url = ''http://youtu.be/'' @ vid @ rest)"
    by blast
next
  assume a: "length vid = 11 \<and> list_all is_id_char vid \<and>
     (\<exists>rest. url = ''https://youtu.be/'' @ vid @ rest \<or> url = ''http://youtu.be/'' @ vid @ rest)"
  then obtain rest where "url = ''https://youtu.be/'' @ vid @ rest \<or> url = ''http://youtu.be/'' @ vid @ rest"
    by blast
  then show "match_short_link url = Some vid"
  proof
    assume "url = ''https://youtu.be/'' @ vid @ rest"
    then show ?thesis using a match_short_link_https[of "vid @ rest"] by simp
  next
    assume "url = ''http://youtu.be/'' @ vid @ rest"
    then show ?thesis using a match_short_link_http[of "vid @ rest"] by simp
  qed
qed

lemma takeWhile_cut:
  "takeWhile (\<lambda>c. c \<noteq> x) s = s \<or> prefix (takeWhile (\<lambda>c. c \<noteq> x) s @ [x]) s"
proof (cases "x \<in> set s")
  case False
  then have "takeWhile (\<lambda>c. c \<noteq> x) s = s" by (intro takeWhile_eq_all_conv[THEN iffD2]) blast
  then show ?thesis by blast
next
  case True
  then have "dropWhile (\<lambda>c. c \<noteq> x) s \<noteq> []" by (simp add: dropWhile_eq_Nil_conv)
  then obtain r where "dropWhile (\<lambda>c. c \<noteq> x) s = x # r"
    using hd_dropWhile[of "\<lambda>c. c \<noteq> x" s] by (cases "dropWhile (\<lambda>c. c \<noteq> x) s") auto
  then have "s = takeWhile (\<lambda>c. c \<noteq> x) s @ [x] @ r"
    using takeWhile_dropWhile_id[of "\<lambda>c. c \<noteq> x" s] by simp
  then show ?thesis by (metis append.assoc prefixI)
qed

text \<open>
  C7, as amended. The rules apply in order. A string that starts with the short-link
  pattern and an 11-character identifier becomes the canonical long form built from that
  identifier alone. Otherwise a string containing \<^verbatim>\<open>watch?v=\<close> is cut at its first \<open>&\<close>,
  wherever that is (\<^verbatim>\<open>url.split("&")[0]\<close>): the result has no \<open>&\<close> and is the whole string or
  the part before an \<open>&\<close>. Any other string is returned unchanged.
\<close>

theorem clean_youtube_url_rules:
  "(length vid = 11 \<and> list_all is_id_char vid \<and>
      (url = ''https://youtu.be/'' @ vid @ rest \<or> url = ''http://youtu.be/'' @ vid @ rest)
      \<longrightarrow> clean_youtube_url url = ''https://www.youtube.com/watch?v='' @ vid) \<and>
   (match_short_link url = None \<and> contains ''watch?v='' url
      \<longrightarrow> clean_youtube_url url = takeWhile (\<lambda>c. c \<noteq> CHR ''&'') url \<and>
          CHR ''&'' \<notin> set (clean_youtube_url url) \<and>
          (clean_youtube_url url = url \<or> prefix (clean_youtube_url url @ ''&'') url)) \<and>
   (match_short_link url = None \<and> \<not> contains ''watch?v='' url \<longrightarrow> clean_youtube_url url = url)"
proof (intro conjI impI)
  assume "length vid = 11 \<and> list_all is_id_char vid \<and>
      (url = ''https://youtu.be/'' @ vid @ rest \<or> url = ''http://youtu.be/'' @ vid @ rest)"
  then have "match_short_link url = Some vid" unfolding match_short_link_Some by blast
  then show "clean_youtube_url url = ''https://www.youtube.com/watch?v='' @ vid"
    by (simp add: clean_youtube_url_def)
next
  assume a: "match_short_link url = None \<and> contains ''watch?v='' url"
  then show e: "clean_youtube_url url = takeWhile (\<lambda>c. c \<noteq> CHR ''&'') url"
    by (simp add: clean_youtube_url_def)
  show "CHR ''&'' \<notin> set (clean_youtube_url url)"
    unfolding e by (auto dest: set_takeWhileD)
  show "clean_youtube_url url = url \<or> prefix (clean_youtube_url url @ ''&'') url"
    unfolding e using takeWhile_cut[of "CHR ''&''" url] by simp
next
  assume "match_short_link url = None \<and> \<not> contains ''watch?v='' url"
  then show "clean_youtube_url url = url" by (simp add: clean_youtube_url_def)
qed

theorem clean_youtube_url_rules_witness:
  "clean_youtube_url ''https://youtu.be/abcdEFGH123?t=5'' = ''https://www.youtube.com/watch?v=abcdEFGH123'' \<and>
   clean_youtube_url ''https://www.youtube.com/watch?v=X&list=Y'' = ''https://www.youtube.com/watch?v=X'' \<and>
   clean_youtube_url ''https://example.org/page'' = ''https://example.org/page''"
proof -
  have 1: "clean_youtube_url ''https://youtu.be/abcdEFGH123?t=5'' = ''https://www.youtube.com/watch?v=abcdEFGH123''"
    using clean_youtube_url_rules [of "''abcdEFGH123''" "''https://youtu.be/abcdEFGH123?t=5''" "''?t=5''"]
    by (simp add: is_id_char_def)
  have 2: "clean_youtube_url ''https://www.youtube.com/watch?v=X&list=Y'' = ''https://www.youtube.com/watch?v=X''"
    using clean_youtube_url_rules [of "[]" "''https://www.youtube.com/watch?v=X&list=Y''" "[]"]
    by (simp add: match_short_link_def)
  have 3: "clean_youtube_url ''https://example.org/page'' = ''https://example.org/page''"
    using clean_youtube_url_rules [of "[]" "''https://example.org/page''" "[]"]
    by (simp add: match_short_link_def)
  from 1 2 3 show ?thesis by simp
qed

text \<open>
  C7 as stated fails: with an \<open>&\<close> before the marker, the code cuts at that earlier \<open>&\<close>,
  not at the first one after the marker.
\<close>

theorem clean_youtube_url_marker_counterexample:
  "match_short_link ''https://r.example/?a=1&u=/watch?v=X&list=Y'' = None \<and>
   contains ''watch?v='' ''https://r.example/?a=1&u=/watch?v=X&list=Y'' \<and>
   spec_truncate_after_marker ''https://r.example/?a=1&u=/watch?v=X&list=Y'' = ''https://r.example/?a=1&u=/watch?v=X'' \<and>
   clean_youtube_url ''https://r.example/?a=1&u=/watch?v=X&list=Y'' = ''https://r.example/?a=1''"
  by (simp add: clean_youtube_url_def match_short_link_def)

section \<open>The representation selector\<close>





text \<open>The list both front ends scan is sorted that way, and every member has a resolution.\<close>

lemma video_streams_of_sorted:
  "sorted_wrt (\<lambda>a b. attr_val (resolution b) \<le> attr_val (resolution a)) (video_streams_of yt)"
proof -
  let ?xs = "sort_key (\<lambda>s. attr_val (resolution s))
      (filter (\<lambda>s. resolution s \<noteq> None)
         (filter (\<lambda>s. is_adaptive s \<and> mtype s = Video \<and> subtype s = ''mp4'') (streams yt)))"
  have "sorted (map (\<lambda>s. attr_val (resolution s)) ?xs)" by (rule sorted_sort_key)
  then have "sorted_wrt (\<lambda>a b. attr_val (resolution a) \<le> attr_val (resolution b)) ?xs"
    by (simp add: sorted_map)
  then have "sorted_wrt (\<lambda>a b. attr_val (resolution b) \<le> attr_val (resolution a)) (rev ?xs)"
    by (simp add: sorted_wrt_rev)
  then show ?thesis by (simp add: video_streams_of_def desc_def order_by_def)
qed

lemma video_streams_of_props:
  "s \<in> set (video_streams_of yt) \<Longrightarrow>
     s \<in> set (streams yt) \<and> is_adaptive s \<and> mtype s = Video \<and> subtype s = ''mp4'' \<and> resolution s \<noteq> None"
  by (auto simp: video_streams_of_def desc_def order_by_def)





section \<open>The merge stage\<close>

lemma subprocess_run_check:
  assumes "ffmpeg e argv (files st) = (outcome, fs1)"
  shows "subprocess_run e argv True st =
           (if exit_zero outcome
            then Inr (0, case outcome of Completed rc errout \<Rightarrow> errout | Raised err \<Rightarrow> [])
            else Inl (case outcome of Completed rc errout \<Rightarrow> CalledProcessError | Raised err \<Rightarrow> err),
            st\<lparr>files := fs1, ops := ops st @ [Run argv]\<rparr>)"
  using assms by (simp add: subprocess_run_def exit_zero_def split: proc.splits)

lemma merge_audio_video_failure:
  assumes "ffmpeg e (merge_argv video_path audio_path output_path) (files st) = (outcome, fs1)"
    and "\<not> exit_zero outcome"
  shows "merge_audio_video e video_path audio_path output_path st =
           (False, st\<lparr>files := fs1, ops := ops st @ [Run (merge_argv video_path audio_path output_path)]\<rparr>)"
  using assms(2) by (simp add: merge_audio_video_def subprocess_run_check[OF assms(1)])

lemma merge_audio_video_success:
  assumes "ffmpeg e (merge_argv video_path audio_path output_path) (files st) = (outcome, fs1)"
    and "exit_zero outcome"
    and "video_path \<noteq> audio_path"
    and "map_of fs1 video_path \<noteq> None" and "map_of fs1 audio_path \<noteq> None"
  shows "merge_audio_video e video_path audio_path output_path st =
           (True, st\<lparr>files := AList.delete audio_path (AList.delete video_path fs1),
                     ops := ops st @ [Run (merge_argv video_path audio_path output_path),
                                      Remove video_path, Remove audio_path]\<rparr>)"
  using assms(2-)
  by (simp add: merge_audio_video_def subprocess_run_check[OF assms(1)] os_remove_def
      os_path_exists_def)

text \<open>
  C2, as amended. For two different source paths that both exist when the tool returns,
  \<^verbatim>\<open>merge_audio_video\<close> returns success exactly when the tool exits with status zero, and
  then it has deleted both source files; when the tool fails (a non-zero status or an
  exception) it returns failure and deletes nothing: the files are as the tool left them.
\<close>

theorem merge_audio_video_outcome:
  assumes "ffmpeg e (merge_argv video_path audio_path output_path) (files st) = (outcome, fs1)"
    and "video_path \<noteq> audio_path"
    and "map_of fs1 video_path \<noteq> None" and "map_of fs1 audio_path \<noteq> None"
  shows "merge_audio_video e video_path audio_path output_path st =
           (exit_zero outcome,
            st\<lparr>files := (if exit_zero outcome
                           then AList.delete audio_path (AList.delete video_path fs1) else fs1),
                ops := ops st @ [Run (merge_argv video_path audio_path output_path)] @
                       (if exit_zero outcome then [Remove video_path, Remove audio_path] else [])\<rparr>)
         \<and> (exit_zero outcome \<longrightarrow>
                map_of (files (snd (merge_audio_video e video_path audio_path output_path st))) video_path = None \<and>
                map_of (files (snd (merge_audio_video e video_path audio_path output_path st))) audio_path = None)
         \<and> (\<not> exit_zero outcome \<longrightarrow>
                files (snd (merge_audio_video e video_path audio_path output_path st)) = fs1)"
proof (cases "exit_zero outcome")
  case True
  from merge_audio_video_success[OF assms(1) True assms(2-)]
  show ?thesis using True by (simp add: delete_conv')
next
  case False
  from merge_audio_video_failure[OF assms(1) False]
  show ?thesis using False by simp
qed

theorem merge_audio_video_outcome_witness:
  "merge_audio_video (env_with tool_ok) ''/tmp/v'' ''/tmp/a'' ''/d/o.mp4''
      \<lparr>files = [(''/tmp/v'', 5), (''/tmp/a'', 2)], ops = [], events = []\<rparr>
     = (True, \<lparr>files = [(''/d/o.mp4'', 7)],
               ops = [Run (merge_argv ''/tmp/v'' ''/tmp/a'' ''/d/o.mp4''), Remove ''/tmp/v'', Remove ''/tmp/a''],
               events = []\<rparr>) \<and>
   merge_audio_video (env_with tool_fail) ''/tmp/v'' ''/tmp/a'' ''/d/o.mp4''
      \<lparr>files = [(''/tmp/v'', 5), (''/tmp/a'', 2)], ops = [], events = []\<rparr>
     = (False, \<lparr>files = [(''/tmp/v'', 5), (''/tmp/a'', 2)],
                ops = [Run (merge_argv ''/tmp/v'' ''/tmp/a'' ''/d/o.mp4'')], events = []\<rparr>)"
proof -
  let ?st = "\<lparr>files = [(''/tmp/v'', 5), (''/tmp/a'', 2)], ops = [], events = []\<rparr>"
  have t1: "ffmpeg (env_with tool_ok) (merge_argv ''/tmp/v'' ''/tmp/a'' ''/d/o.mp4'') (files ?st)
              = (Completed 0 [], [(''/tmp/v'', 5), (''/tmp/a'', 2), (''/d/o.mp4'', 7)])"
    by (simp add: env_with_def tool_ok_def merge_argv_def)
  have t2: "ffmpeg (env_with tool_fail) (merge_argv ''/tmp/v'' ''/tmp/a'' ''/d/o.mp4'') (files ?st)
              = (Completed 1 ''error'', [(''/tmp/v'', 5), (''/tmp/a'', 2)])"
    by (simp add: env_with_def tool_fail_def)
  have a: "merge_audio_video (env_with tool_ok) ''/tmp/v'' ''/tmp/a'' ''/d/o.mp4'' ?st
     = (True, \<lparr>files = [(''/d/o.mp4'', 7)],
               ops = [Run (merge_argv ''/tmp/v'' ''/tmp/a'' ''/d/o.mp4''), Remove ''/tmp/v'', Remove ''/tmp/a''],
               events = []\<rparr>)"
    using merge_audio_video_outcome [OF t1] by (simp add: exit_zero_def AList.delete_eq)
  have b: "merge_audio_video (env_with tool_fail) ''/tmp/v'' ''/tmp/a'' ''/d/o.mp4'' ?st
     = (False, \<lparr>files = [(''/tmp/v'', 5), (''/tmp/a'', 2)],
                ops = [Run (merge_argv ''/tmp/v'' ''/tmp/a'' ''/d/o.mp4'')], events = []\<rparr>)"
    using merge_audio_video_outcome [OF t2] by (simp add: exit_zero_def)
  from a b show ?thesis by simp
qed

text \<open>
  C2 as stated, for every pair of paths, fails: called with the same path twice, the tool
  exits with status zero, the first \<^verbatim>\<open>os.remove\<close> deletes the file, the second raises, and
  the handler returns failure.
\<close>

theorem merge_audio_video_same_path_counterexample:
  "exit_zero (fst (ffmpeg (env_with tool_ok) (merge_argv ''/tmp/x'' ''/tmp/x'' ''/d/o.mp4'') [(''/tmp/x'', 5)])) \<and>
   merge_audio_video (env_with tool_ok) ''/tmp/x'' ''/tmp/x'' ''/d/o.mp4''
      \<lparr>files = [(''/tmp/x'', 5)], ops = [], events = []\<rparr>
     = (False, \<lparr>files = [(''/d/o.mp4'', 7)],
                ops = [Run (merge_argv ''/tmp/x'' ''/tmp/x'' ''/d/o.mp4''), Remove ''/tmp/x''],
                events = []\<rparr>)"
  by (simp add: merge_audio_video_def subprocess_run_def env_with_def tool_ok_def merge_argv_def
      exit_zero_def os_remove_def os_path_exists_def AList.delete_eq)

section \<open>Progress percentages\<close>



lemma progress_callback_zero_total:
  "filesize s = 0 \<Longrightarrow> progress_callback e s bytes_remaining st = Inl ZeroDivisionError"
  by (simp add: progress_callback_def true_div_def)




section \<open>Runs on the concrete catalog\<close>

text \<open>Facts about the concrete environment, used where the code is run on it.\<close>

lemmas stream_defs = v1080_def v720_def v480_def a128_def a48_def

lemma env_with_sel:
  "ffmpeg (env_with tool) = tool"
  "downloads_dir (env_with tool) = ''/d''"
  "temp_dir (env_with tool) = ''/tmp''"
  "transfer (env_with tool) s = Inr (filesize s)"
  "http_get (env_with tool) url = Inr (200, 3)"
  "fround (env_with tool) x = x"
  "catalog (env_with tool) ''u1'' = Inr clip"
  "catalog (env_with tool) ''u2'' = Inr bare"
  "catalog (env_with tool) ''u3'' = Inr clip"
  by (simp_all add: env_with_def)

lemma best_audio_only_clip: "best_audio_only clip = Some a128"
  by (simp add: best_audio_only_def clip_def stream_defs first_def desc_def order_by_def
      only_audio_def includes_audio_track_def includes_video_track_def is_progressive_def attr_val_def)

lemma splitext_clip: "splitext ''/d/Clip.mp4'' = (''/d/Clip'', ''.mp4'')"
  by (simp add: splitext_def rfind_def)

lemma replace_clip: "str_replace ''.mp4'' ''.mp3'' ''/d/Clip.mp4'' = ''/d/Clip.mp3''"
  by (simp add: str_replace_def)

lemma download_a128:
  "stream_download (env_with tool) a128 ''/d'' [] st =
     (Inr ''/d/Clip.mp4'',
      st\<lparr>ops := ops st @ [Download a128 ''/d/Clip.mp4''],
         files := AList.update ''/d/Clip.mp4'' 40 (files st)\<rparr>)"
  by (simp add: stream_download_def env_with_sel path_join_def a128_def Let_def)

section \<open>Audio-only conversion\<close>

text \<open>
  The browser front end checks the output: when the tool exits with status zero and the
  MP3 file is missing or empty, the run is a failure, nothing is removed and the files
  are as the tool left them.
\<close>

lemma convert_to_mp3_web_empty_output:
  assumes "ffmpeg e [''ffmpeg'', ''-y'', ''-i'', audio_file_path, ''-q:a'', ''0'', ''-map'', ''a'',
                      fst (splitext audio_file_path) @ ''.mp3'']
             (files st) = (Completed 0 errout, fs1)"
    and "map_of fs1 (fst (splitext audio_file_path) @ ''.mp3'') = None \<or>
         map_of fs1 (fst (splitext audio_file_path) @ ''.mp3'') = Some 0"
  shows "fst (convert_to_mp3_web e yt audio_file_path st) = Failure ''MP3 conversion produced empty file'' \<and>
         files (snd (convert_to_mp3_web e yt audio_file_path st)) = fs1 \<and>
         (\<forall>p. Remove p \<in> set (ops (snd (convert_to_mp3_web e yt audio_file_path st))) \<longrightarrow> Remove p \<in> set (ops st))"
  using assms
  by (auto simp: convert_to_mp3_web_def conversion_handlers_def subprocess_run_def emit_progress_def exists_nonempty_def Let_def)

lemma download_video_web_audio_only_empty_output:
  "download_video_web (env_with tool_empty) ''u1'' ''720'' True empty_state =
     Some (Failure ''MP3 conversion produced empty file'',
       \<lparr>files = [(''/d/Clip.mp4'', 40), (''/d/Clip.mp3'', 0)],
        ops = [Download a128 ''/d/Clip.mp4'',
               Run [''ffmpeg'', ''-y'', ''-i'', ''/d/Clip.mp4'', ''-q:a'', ''0'', ''-map'', ''a'', ''/d/Clip.mp3'']],
        events = [(''Fetching video information...'', Some 0), (''Processing: Clip'', Some 10),
                  (''Processing: Clip'', Some 10), (''Downloading audio only...'', Some 20),
                  (''Converting to MP3...'', Some 80), (''Error: MP3 file not created properly'', Some 0)]\<rparr>)"
proof -
  have c: "catalog (env_with tool_empty) ''u1'' = Inr clip" by (simp add: env_with_def)
  have d: "downloads_dir (env_with tool_empty) = ''/d''" by (simp add: env_with_def)
  have t: "title clip = ''Clip''" by (simp add: clip_def)
  show ?thesis
    by (simp add: download_video_web_def c t download_audio_web_def best_audio_only_clip
        download_a128 convert_to_mp3_web_def conversion_handlers_def
        splitext_clip subprocess_run_def env_with_sel tool_empty_def exists_nonempty_def
        emit_progress_def empty_state_def Let_def)
qed

text \<open>
  C4. The terminal front end has no such check. On the same run (the tool exits with
  status zero and leaves an empty MP3 file) \<^verbatim>\<open>download_video\<close> deletes the downloaded
  input, prints that the audio was saved, and leaves the zero-byte file as the only file.
\<close>

theorem download_video_audio_only_empty_output:
  "download_video (env_with tool_empty) ''u1'' ''720'' True empty_state =
     Some \<lparr>files = [(''/d/Clip.mp3'', 0)],
           ops = [Download a128 ''/d/Clip.mp4'',
                  Run [''ffmpeg'', ''-y'', ''-i'', ''/d/Clip.mp4'', ''/d/Clip.mp3''],
                  Remove ''/d/Clip.mp4''],
           events = [(''Audio saved as: /d/Clip.mp3'', None)]\<rparr>"
proof -
  have c: "catalog (env_with tool_empty) ''u1'' = Inr clip" by (simp add: env_with_def)
  have d: "downloads_dir (env_with tool_empty) = ''/d''" by (simp add: env_with_def)
  have a: "download_audio_cli (env_with tool_empty) clip empty_state =
     (Inr (), \<lparr>files = [(''/d/Clip.mp3'', 0)],
           ops = [Download a128 ''/d/Clip.mp4'',
                  Run [''ffmpeg'', ''-y'', ''-i'', ''/d/Clip.mp4'', ''/d/Clip.mp3''],
                  Remove ''/d/Clip.mp4''],
           events = [(''Audio saved as: /d/Clip.mp3'', None)]\<rparr>)"
    by (simp add: download_audio_cli_def best_audio_only_clip download_a128 replace_clip
        subprocess_run_def env_with_sel tool_empty_def
        os_remove_def os_path_exists_def empty_state_def print_line_def AList.delete_eq Let_def)
  show ?thesis by (simp add: download_video_def c a)
qed

section \<open>Audio-only runs select no video\<close>

lemma downloaded_emit [simp]: "downloaded (emit_progress m p st) = downloaded st"
  by (simp add: downloaded_def emit_progress_def)

lemma downloaded_print [simp]: "downloaded (print_line m st) = downloaded st"
  by (simp add: downloaded_def print_line_def)

lemma downloaded_save_thumbnail [simp]: "downloaded (save_thumbnail e u f st) = downloaded st"
  by (simp add: downloaded_def save_thumbnail_def Let_def split: sum.splits prod.splits)

lemma downloaded_stream_download:
  "stream_download e s d pre st = (r, st') \<Longrightarrow> downloaded st' = downloaded st @ [s]"
  by (auto simp: downloaded_def stream_download_def Let_def split: sum.splits)

lemma downloaded_subprocess_run:
  "subprocess_run e argv check st = (r, st') \<Longrightarrow> downloaded st' = downloaded st"
  by (auto simp: downloaded_def subprocess_run_def Let_def split: prod.splits proc.splits if_splits)

lemma downloaded_os_remove:
  "os_remove p st = Inr st' \<Longrightarrow> downloaded st' = downloaded st"
  by (auto simp: downloaded_def os_remove_def split: if_splits)

lemma downloaded_convert_to_mp3_web:
  "downloaded (snd (convert_to_mp3_web e yt a st)) = downloaded st"
proof -
  let ?mp3 = "fst (splitext a) @ ''.mp3''"
  let ?st1 = "emit_progress ''Converting to MP3...'' (Some 80) st"
  obtain r st2 where run: "subprocess_run e
     [''ffmpeg'', ''-y'', ''-i'', a, ''-q:a'', ''0'', ''-map'', ''a'', ?mp3] False ?st1 = (r, st2)"
    by force
  have d2: "downloaded st2 = downloaded st" using downloaded_subprocess_run[OF run] by simp
  show ?thesis
  proof (cases r)
    case (Inl err)
    then show ?thesis by (simp add: convert_to_mp3_web_def conversion_handlers_def Let_def run d2)
  next
    case (Inr rc)
    obtain code errout where rc: "rc = (code, errout)" by (cases rc)
    show ?thesis
    proof (cases "os_remove a st2")
      case (Inl err)
      then show ?thesis by (simp add: convert_to_mp3_web_def conversion_handlers_def Let_def run Inr rc d2)
    next
      case (Inr st3)
      then have "downloaded st3 = downloaded st" using downloaded_os_remove[OF Inr] d2 by simp
      then show ?thesis using Inr \<open>r = Inr rc\<close> by (simp add: convert_to_mp3_web_def conversion_handlers_def Let_def run rc d2)
    qed
  qed
qed

lemma downloaded_download_audio_web:
  "downloaded (snd (download_audio_web e yt st)) =
     downloaded st @ (case best_audio_only yt of None \<Rightarrow> [] | Some s \<Rightarrow> [s])"
proof (cases "best_audio_only yt")
  case None
  then show ?thesis by (simp add: download_audio_web_def Let_def)
next
  case (Some s)
  let ?st1 = "emit_progress ''Downloading audio only...'' (Some 20) st"
  obtain r st2 where sd: "stream_download e s (downloads_dir e) [] ?st1 = (r, st2)" by force
  have d2: "downloaded st2 = downloaded st @ [s]" using downloaded_stream_download[OF sd] by simp
  show ?thesis
  proof (cases r)
    case (Inl err)
    then show ?thesis by (simp add: download_audio_web_def Let_def Some sd d2)
  next
    case (Inr p)
    obtain r3 st3 where c: "convert_to_mp3_web e yt p st2 = (r3, st3)" by force
    have "downloaded st3 = downloaded st @ [s]"
      using downloaded_convert_to_mp3_web[of e yt p st2] c d2 by simp
    then show ?thesis
      by (simp add: download_audio_web_def Let_def Some sd Inr c)
  qed
qed

lemma downloaded_download_audio_cli:
  "downloaded (snd (download_audio_cli e yt st)) =
     downloaded st @ (case best_audio_only yt of None \<Rightarrow> [] | Some s \<Rightarrow> [s])"
proof (cases "best_audio_only yt")
  case None
  then show ?thesis by (simp add: download_audio_cli_def)
next
  case (Some s)
  obtain r st1 where sd: "stream_download e s (downloads_dir e) [] st = (r, st1)" by force
  have d1: "downloaded st1 = downloaded st @ [s]" using downloaded_stream_download[OF sd] by simp
  show ?thesis
  proof (cases r)
    case (Inl err)
    then show ?thesis by (simp add: download_audio_cli_def Some sd d1)
  next
    case (Inr p)
    obtain r2 st2 where run: "subprocess_run e
        [''ffmpeg'', ''-y'', ''-i'', p, str_replace ''.mp4'' ''.mp3'' p] False st1 = (r2, st2)" by force
    have d2: "downloaded st2 = downloaded st @ [s]" using downloaded_subprocess_run[OF run] d1 by simp
    show ?thesis
    proof (cases r2)
      case (Inl err)
      then show ?thesis using Inr by (simp add: download_audio_cli_def Let_def Some sd run d2)
    next
      case r2: (Inr x)
      show ?thesis
      proof (cases "os_remove p st2")
        case (Inl err)
        then show ?thesis using Inr r2 by (simp add: download_audio_cli_def Let_def Some sd run d2)
      next
        case rm: (Inr st3)
        have "downloaded st3 = downloaded st @ [s]" using downloaded_os_remove[OF rm] d2 by simp
        then show ?thesis using Inr r2 rm by (simp add: download_audio_cli_def Let_def Some sd run)
      qed
    qed
  qed
qed

lemma download_video_web_audio_only:
  "\<exists>r st'. download_video_web e url q True st = Some (r, st') \<and>
     downloaded st' = downloaded st @
        (case catalog e url of Inl err \<Rightarrow> []
         | Inr yt \<Rightarrow> (case best_audio_only yt of None \<Rightarrow> [] | Some s \<Rightarrow> [s]))"
proof (cases "catalog e url")
  case (Inl err)
  then show ?thesis by (simp add: download_video_web_def Let_def)
next
  case (Inr yt)
  let ?st1 = "emit_progress (''Processing: '' @ title yt) (Some 10)
               (emit_progress (''Processing: '' @ title yt) (Some 10)
                 (emit_progress ''Fetching video information...'' (Some 0) st))"
  obtain r st2 where a: "download_audio_web e yt ?st1 = (r, st2)" by force
  have d: "downloaded st2 = downloaded st @ (case best_audio_only yt of None \<Rightarrow> [] | Some s \<Rightarrow> [s])"
    using downloaded_download_audio_web[of e yt ?st1] a by simp
  show ?thesis
    using a d by (cases r) (simp_all add: download_video_web_def Let_def Inr)
qed

lemma download_video_audio_only:
  "\<exists>st'. download_video e url q True st = Some st' \<and>
     downloaded st' = downloaded st @
        (case catalog e url of Inl err \<Rightarrow> []
         | Inr yt \<Rightarrow> (case best_audio_only yt of None \<Rightarrow> [] | Some s \<Rightarrow> [s]))"
proof (cases "catalog e url")
  case (Inl err)
  then show ?thesis by (simp add: download_video_def)
next
  case (Inr yt)
  obtain r st2 where a: "download_audio_cli e yt st = (r, st2)" by force
  have d: "downloaded st2 = downloaded st @ (case best_audio_only yt of None \<Rightarrow> [] | Some s \<Rightarrow> [s])"
    using downloaded_download_audio_cli[of e yt st] a by simp
  show ?thesis
    by (cases r) (simp_all add: download_video_def Inr a d)
qed

lemma audio_only_ignores_quality:
  "download_video_web e url q True st = download_video_web e url q' True st"
  "download_video e url q True st = download_video e url q' True st"
  by (simp_all add: download_video_web_def download_video_def Let_def split: sum.splits)

lemma sorted_key_le_last:
  "sorted (map f ys) \<Longrightarrow> t \<in> set ys \<Longrightarrow> (f t :: nat) \<le> f (last ys)"
  by (induction ys) auto

lemma first_desc_order_by_max:
  assumes "first (desc (order_by attr xs)) = Some s"
  shows "s \<in> set xs \<and> attr s \<noteq> None \<and>
         (\<forall>t\<in>set xs. attr t \<noteq> None \<longrightarrow> attr_val (attr t) \<le> attr_val (attr s))"
proof -
  let ?f = "\<lambda>s. attr_val (attr s)"
  let ?ys = "sort_key ?f (filter (\<lambda>s. attr s \<noteq> None) xs)"
  from assms have ne: "?ys \<noteq> []" and s: "s = last ?ys"
    by (auto simp: first_def desc_def order_by_def hd_rev split: list.splits)
  have mem: "s \<in> set ?ys" unfolding s using ne by (rule last_in_set)
  have srt: "sorted (map ?f ?ys)" by (rule sorted_sort_key)
  have "\<forall>t\<in>set ?ys. ?f t \<le> ?f s"
    unfolding s using sorted_key_le_last[OF srt] by blast
  moreover have set_ys: "set ?ys = {t \<in> set xs. attr t \<noteq> None}" by auto
  ultimately have "\<forall>t\<in>set xs. attr t \<noteq> None \<longrightarrow> ?f t \<le> ?f s" by blast
  moreover from mem set_ys have "s \<in> set xs" "attr s \<noteq> None" by blast+
  ultimately show ?thesis by blast
qed

lemma best_audio_only_props:
  assumes "best_audio_only yt = Some s"
  shows "s \<in> set (streams yt) \<and> mtype s = Audio \<and> is_adaptive s \<and> \<not> includes_video_track s \<and>
         (\<forall>t\<in>set (streams yt). only_audio t \<and> abr t \<noteq> None \<longrightarrow> attr_val (abr t) \<le> attr_val (abr s))"
proof -
  from first_desc_order_by_max[OF assms[unfolded best_audio_only_def]]
  have "s \<in> set (filter only_audio (streams yt))"
    and "\<forall>t\<in>set (filter only_audio (streams yt)). abr t \<noteq> None \<longrightarrow> attr_val (abr t) \<le> attr_val (abr s)"
    by blast+
  then show ?thesis
    by (auto simp: only_audio_def includes_audio_track_def includes_video_track_def is_progressive_def)
qed

text \<open>
  C8. With the audio-only flag set, a run of either front end always returns, fetches at
  most one stream, the one \<^verbatim>\<open>filter(only_audio=True).order_by("abr").desc().first()\<close>
  picks, and does not depend on the target quality, which only the video selection reads:
  that step is never reached. The stream picked is an audio stream without a video track,
  and no audio-only stream with a known bitrate has a higher bitrate.
\<close>

theorem audio_only_selects_no_video:
  "(\<exists>r st'. download_video_web e url q True st = Some (r, st') \<and>
       downloaded st' = downloaded st @
         (case catalog e url of Inl err \<Rightarrow> []
          | Inr yt \<Rightarrow> (case best_audio_only yt of None \<Rightarrow> [] | Some s \<Rightarrow> [s]))) \<and>
   (\<exists>st'. download_video e url q True st = Some st' \<and>
       downloaded st' = downloaded st @
         (case catalog e url of Inl err \<Rightarrow> []
          | Inr yt \<Rightarrow> (case best_audio_only yt of None \<Rightarrow> [] | Some s \<Rightarrow> [s]))) \<and>
   download_video_web e url q True st = download_video_web e url q' True st \<and>
   download_video e url q True st = download_video e url q' True st \<and>
   (\<forall>yt s. best_audio_only yt = Some s \<longrightarrow>
      s \<in> set (streams yt) \<and> mtype s = Audio \<and> is_adaptive s \<and> \<not> includes_video_track s \<and>
      (\<forall>t\<in>set (streams yt). only_audio t \<and> abr t \<noteq> None
           \<longrightarrow> attr_val (abr t) \<le> attr_val (abr s)))"
  using download_video_web_audio_only[of e url q st] download_video_audio_only[of e url q st]
    audio_only_ignores_quality[of e url q st q'] best_audio_only_props
  by blast

theorem audio_only_selects_no_video_witness:
  "(\<exists>r st'. download_video_web (env_with tool_ok) ''u1'' ''720'' True empty_state = Some (r, st') \<and>
       downloaded st' = [a128]) \<and>
   (\<exists>st'. download_video (env_with tool_ok) ''u1'' ''720'' True empty_state = Some st' \<and>
       downloaded st' = [a128]) \<and>
   mtype a128 = Audio \<and> \<not> includes_video_track a128"
proof -
  have c: "catalog (env_with tool_ok) ''u1'' = Inr clip" by (simp add: env_with_def)
  have d: "downloaded empty_state = []" by (simp add: downloaded_def empty_state_def)
  from audio_only_selects_no_video [of "env_with tool_ok" "''u1''" "''720''" empty_state "''720''"]
  show ?thesis
    unfolding c d using best_audio_only_clip by simp
qed

section \<open>The collection run\<close>













section \<open>The two front ends\<close>

lemma same_emit_left [simp]: "same_files_ops (emit_progress m p a) b = same_files_ops a b"
  by (simp add: same_files_ops_def emit_progress_def)

lemma same_print_right [simp]: "same_files_ops a (print_line m b) = same_files_ops a b"
  by (simp add: same_files_ops_def print_line_def)

lemma thumb_emit_left [simp]: "same_but_thumbnail (emit_progress m p a) b = same_but_thumbnail a b"
  by (simp add: same_but_thumbnail_def) (simp add: emit_progress_def)

lemma thumb_print_right [simp]: "same_but_thumbnail a (print_line m b) = same_but_thumbnail a b"
  by (simp add: same_but_thumbnail_def) (simp add: print_line_def)

lemma same_refl [simp]: "same_files_ops st st"
  by (simp add: same_files_ops_def)


















end
